theory Spec2Isabelle
  imports Complex_Main "HOL-Library.Word"
begin

unbundle bit_operations_syntax

section \<open>Machine types and compile-time constants\<close>

text \<open>
  The source file \<^verbatim>\<open>atom_vec_rbc.cpp\<close> stores every integer quantity in a C \<^verbatim>\<open>int\<close>
  or in a \<^verbatim>\<open>tagint\<close>; both are 32-bit two's complement integers in the default build.
  Floating-point quantities are \<^verbatim>\<open>double\<close>; they are represented by the real number
  they denote, so a sum of two doubles is the exact sum (rounding is not part of the model).
\<close>

type_synonym cint = "32 word"
type_synonym tagint = "32 word"
type_synonym double = real

text \<open>
  The macros \<^verbatim>\<open>IMGMASK\<close>, \<^verbatim>\<open>IMGMAX\<close>, \<^verbatim>\<open>IMGBITS\<close>, \<^verbatim>\<open>IMG2BITS\<close> and
  \<^verbatim>\<open>MAXSMALLINT\<close> come from a header that is not part of the source file. They are taken
  as parameters, collected in one record.
\<close>

record lmptype =
  IMGMASK :: tagint
  IMGMAX :: tagint
  IMGBITS :: nat
  IMG2BITS :: nat
  MAXSMALLINT :: int

text \<open>
  The relation between the four image macros that the bit layout relies on: a field of
  \<open>IMGBITS\<close> bits per axis, a mask of that width, a bias of half the field, the three
  fields side by side below the sign bit.
\<close>

definition img_ok :: "lmptype \<Rightarrow> bool" where
  "img_ok lt \<longleftrightarrow>
     0 < IMGBITS lt \<and>
     IMGMASK lt = 2 ^ IMGBITS lt - 1 \<and>
     IMGMAX lt = 2 ^ (IMGBITS lt - 1) \<and>
     2 * IMGBITS lt \<le> IMG2BITS lt \<and>
     IMG2BITS lt + IMGBITS lt < 32"

text \<open>The values of the default build.\<close>

definition lmp_smallbig :: lmptype where
  "lmp_smallbig =
     \<lparr>IMGMASK = 1023, IMGMAX = 512, IMGBITS = 10, IMG2BITS = 20, MAXSMALLINT = 2147483647\<rparr>"

section \<open>Periodic image codec\<close>

text \<open>
  The decoding of the three wrap counters, as written in \<^verbatim>\<open>pack_comm_vel\<close>,
  \<^verbatim>\<open>pack_border\<close> and \<^verbatim>\<open>pack_border_vel\<close>:
  \<^verbatim>\<open>ximg = (img & IMGMASK) - IMGMAX; yimg = ((img >> IMGBITS) & IMGMASK) - IMGMAX;
  zimg = ((img >> IMG2BITS) & IMGMASK) - IMGMAX\<close>. The right shift of a signed \<^verbatim>\<open>int\<close> is
  arithmetic.
\<close>

definition image_decode :: "lmptype \<Rightarrow> cint \<Rightarrow> cint \<times> cint \<times> cint" where
  "image_decode lt img =
     ((img AND IMGMASK lt) - IMGMAX lt,
      (signed_drop_bit (IMGBITS lt) img AND IMGMASK lt) - IMGMAX lt,
      (signed_drop_bit (IMG2BITS lt) img AND IMGMASK lt) - IMGMAX lt)"

text \<open>
  The decoding written in \<^verbatim>\<open>pack_data\<close>, whose third component is not masked:
  \<^verbatim>\<open>(image[i] >> IMG2BITS) - IMGMAX\<close>.
\<close>

definition image_decode_data :: "lmptype \<Rightarrow> tagint \<Rightarrow> cint \<times> cint \<times> cint" where
  "image_decode_data lt img =
     ((img AND IMGMASK lt) - IMGMAX lt,
      (signed_drop_bit (IMGBITS lt) img AND IMGMASK lt) - IMGMAX lt,
      signed_drop_bit (IMG2BITS lt) img - IMGMAX lt)"

text \<open>
  The encoding of three wrap counters:
  \<^verbatim>\<open>((tagint)(wx + IMGMAX) & IMGMASK) | (((tagint)(wy + IMGMAX) & IMGMASK) << IMGBITS) |
  (((tagint)(wz + IMGMAX) & IMGMASK) << IMG2BITS)\<close>.
\<close>

definition image_encode :: "lmptype \<Rightarrow> cint \<Rightarrow> cint \<Rightarrow> cint \<Rightarrow> tagint" where
  "image_encode lt wx wy wz =
     ((wx + IMGMAX lt) AND IMGMASK lt) OR
     push_bit (IMGBITS lt) ((wy + IMGMAX lt) AND IMGMASK lt) OR
     push_bit (IMG2BITS lt) ((wz + IMGMAX lt) AND IMGMASK lt)"

text \<open>
  The image of a ghost behind a periodic boundary: decode, subtract the shift \<open>pbc\<close>
  per axis, encode (\<^verbatim>\<open>newimg\<close> in the three pack functions).
\<close>

definition image_remap :: "lmptype \<Rightarrow> tagint \<Rightarrow> (nat \<Rightarrow> cint) \<Rightarrow> tagint" where
  "image_remap lt img pbc =
     (case image_decode lt img of
        (ximg, yimg, zimg) \<Rightarrow> image_encode lt (ximg - pbc 0) (yimg - pbc 1) (zimg - pbc 2))"

text \<open>
  The supported range of one wrap counter: what the biased field can hold,
  \<open>-IMGMAX \<le> w \<le> IMGMASK - IMGMAX\<close>.
\<close>

definition wrap_in_range :: "lmptype \<Rightarrow> cint \<Rightarrow> bool" where
  "wrap_in_range lt w \<longleftrightarrow>
     - sint (IMGMAX lt) \<le> sint w \<and> sint w \<le> sint (IMGMASK lt) - sint (IMGMAX lt)"


section \<open>Wire buffer\<close>

text \<open>
  A buffer is the memory behind a \<^verbatim>\<open>double *buf\<close>, indexed from the pointer. A word of it
  holds either a double or, where the source writes through the cast
  \<^verbatim>\<open>*((tagint *) &buf[m])\<close>, a \<^verbatim>\<open>tagint\<close>. Reading a word through the other type
  reinterprets its bytes; the model leaves that value unspecified.
\<close>

datatype cell = Dbl double | Img tagint

type_synonym buffer = "nat \<Rightarrow> cell"

fun dbl_of :: "cell \<Rightarrow> double" where
  "dbl_of (Dbl d) = d"

fun img_of :: "cell \<Rightarrow> tagint" where
  "img_of (Img w) = w"

text \<open>
  The implicit conversion of an \<^verbatim>\<open>int\<close> to a \<^verbatim>\<open>double\<close> (exact, an \<^verbatim>\<open>int\<close> has 32
  bits) and \<^verbatim>\<open>static_cast<int>\<close> of a \<^verbatim>\<open>double\<close>, which truncates towards zero. A value
  outside the range of \<^verbatim>\<open>int\<close> is undefined in C; here it wraps.
\<close>

definition i2d :: "cint \<Rightarrow> double" where
  "i2d w = of_int (sint w)"

definition d2i :: "double \<Rightarrow> cint" where
  "d2i r = word_of_int (if r < 0 then \<lceil>r\<rceil> else \<lfloor>r\<rfloor>)"

text \<open>\<^verbatim>\<open>buf[m++] = c\<close>, on the pair of the cursor \<open>m\<close> and the buffer.\<close>

definition put :: "cell \<Rightarrow> nat \<times> buffer \<Rightarrow> nat \<times> buffer" where
  "put c mb = (Suc (fst mb), (snd mb)(fst mb := c))"

text \<open>Several such statements in a row.\<close>

definition puts :: "cell list \<Rightarrow> nat \<times> buffer \<Rightarrow> nat \<times> buffer" where
  "puts cs mb = fold put cs mb"

section \<open>Particle store\<close>

text \<open>
  The per-atom arrays of \<^verbatim>\<open>atom\<close> that \<^verbatim>\<open>AtomVecRBC\<close> caches as members. A C array is
  a function of the index: a slot beyond the allocated size holds whatever the function
  says there, as unallocated memory holds anything. Two-dimensional arrays
  (\<^verbatim>\<open>x[i][0]\<close>, \<^verbatim>\<open>bond_type[i][k]\<close>) are functions of two indices. The arrays
  \<^verbatim>\<open>type\<close>, \<^verbatim>\<open>mask\<close>, \<^verbatim>\<open>image\<close>, \<^verbatim>\<open>x\<close>, \<^verbatim>\<open>v\<close> and \<^verbatim>\<open>f\<close> carry the suffix
  \<open>_a\<close>. \<open>nlocal\<close>, \<open>nmax\<close> are non-negative counters and kept as naturals; the one place
  where the source relies on their overflow is \<^verbatim>\<open>grow\<close>, where it is written out.
\<close>

record store =
  nlocal :: nat
  nmax :: nat
  ntypes :: cint
  tag :: "nat \<Rightarrow> cint"
  type_a :: "nat \<Rightarrow> cint"
  mask_a :: "nat \<Rightarrow> cint"
  image_a :: "nat \<Rightarrow> tagint"
  x_a :: "nat \<Rightarrow> nat \<Rightarrow> double"
  v_a :: "nat \<Rightarrow> nat \<Rightarrow> double"
  f_a :: "nat \<Rightarrow> nat \<Rightarrow> double"
  molecule :: "nat \<Rightarrow> cint"
  nspecial :: "nat \<Rightarrow> nat \<Rightarrow> cint"
  special :: "nat \<Rightarrow> nat \<Rightarrow> cint"
  num_bond :: "nat \<Rightarrow> cint"
  bond_type :: "nat \<Rightarrow> nat \<Rightarrow> cint"
  bond_atom :: "nat \<Rightarrow> nat \<Rightarrow> cint"
  bond_r0 :: "nat \<Rightarrow> nat \<Rightarrow> double"
  num_angle :: "nat \<Rightarrow> cint"
  angle_type :: "nat \<Rightarrow> nat \<Rightarrow> cint"
  angle_atom1 :: "nat \<Rightarrow> nat \<Rightarrow> cint"
  angle_atom2 :: "nat \<Rightarrow> nat \<Rightarrow> cint"
  angle_atom3 :: "nat \<Rightarrow> nat \<Rightarrow> cint"
  angle_a0 :: "nat \<Rightarrow> nat \<Rightarrow> double"
  num_dihedral :: "nat \<Rightarrow> cint"
  dihedral_type :: "nat \<Rightarrow> nat \<Rightarrow> cint"
  dihedral_atom1 :: "nat \<Rightarrow> nat \<Rightarrow> cint"
  dihedral_atom2 :: "nat \<Rightarrow> nat \<Rightarrow> cint"
  dihedral_atom3 :: "nat \<Rightarrow> nat \<Rightarrow> cint"
  dihedral_atom4 :: "nat \<Rightarrow> nat \<Rightarrow> cint"

text \<open>The number of iterations of \<^verbatim>\<open>for (k = 0; k < c; k++)\<close> for a signed bound \<open>c\<close>.\<close>

definition iters :: "cint \<Rightarrow> nat" where
  "iters c = nat (sint c)"

text \<open>
  The domain geometry and the deformation settings read by the pack functions
  (\<^verbatim>\<open>domain->triclinic\<close>, \<^verbatim>\<open>domain->xprd\<close>, ..., \<^verbatim>\<open>deform_vremap\<close>,
  \<^verbatim>\<open>deform_groupbit\<close>, \<^verbatim>\<open>h_rate\<close>).
\<close>

record domain =
  triclinic :: cint
  xprd :: double
  yprd :: double
  zprd :: double
  xy :: double
  xz :: double
  yz :: double
  deform_vremap :: cint
  deform_groupbit :: cint
  h_rate :: "nat \<Rightarrow> double"

text \<open>
  A registered extension (\<^verbatim>\<open>modify->fix[...]\<close>). Its code is outside the source file; it
  is given by what its callbacks write and how many words they consume. A pack callback
  is the list of words it writes at \<^verbatim>\<open>&buf[m]\<close>; an unpack callback gets the slot and the
  buffer from \<^verbatim>\<open>&buf[m]\<close> on and returns the number of words it consumed. The arrays an
  extension owns are not part of the store.
\<close>

record fix_hooks =
  fix_pack_border :: "nat \<Rightarrow> nat list \<Rightarrow> cell list"
  fix_unpack_border :: "nat \<Rightarrow> nat \<Rightarrow> buffer \<Rightarrow> nat"
  fix_pack_exchange :: "nat \<Rightarrow> cell list"
  fix_unpack_exchange :: "nat \<Rightarrow> buffer \<Rightarrow> nat"
  fix_size_restart :: "nat \<Rightarrow> cint"
  fix_pack_restart :: "nat \<Rightarrow> cell list"

text \<open>The fatal errors raised through \<^verbatim>\<open>error->one\<close>, which ends the run.\<close>

datatype error =
  Per_processor_system_is_too_big
  | Invalid_atom_ID_in_Atoms_section_of_data_file
  | Invalid_atom_type_in_Atoms_section_of_data_file

subsection \<open>grow\<close>

definition DELTA :: int where
  "DELTA = 10000"

text \<open>
  \<^verbatim>\<open>grow(n)\<close>: \<^verbatim>\<open>nmax += DELTA\<close> for \<open>n = 0\<close>, \<^verbatim>\<open>nmax = n\<close> otherwise, in 32-bit
  arithmetic; a negative or too large result is fatal. The reallocation keeps the contents
  of every array at the old indices. The \<^verbatim>\<open>grow_arrays\<close> callbacks act on the extensions'
  own arrays.
\<close>

definition grow :: "lmptype \<Rightarrow> int \<Rightarrow> store \<Rightarrow> error + store" where
  "grow lt n st =
     (let nmax' = (if n = 0 then sint (word_of_int (int (nmax st) + DELTA) :: cint) else n) in
      if nmax' < 0 \<or> nmax' > MAXSMALLINT lt then Inl Per_processor_system_is_too_big
      else Inr (st\<lparr>nmax := nat nmax'\<rparr>))"

text \<open>\<^verbatim>\<open>if (i == nmax) grow(0);\<close>\<close>

definition grow_if_full :: "lmptype \<Rightarrow> nat \<Rightarrow> store \<Rightarrow> error + store" where
  "grow_if_full lt i st = (if i = nmax st then grow lt 0 st else Inr st)"

subsection \<open>copy\<close>

text \<open>
  \<^verbatim>\<open>copy(i, j, delflag)\<close>. Each loop runs to the count just stored in slot \<open>j\<close> and copies
  entry \<open>k\<close> of slot \<open>i\<close> to entry \<open>k\<close> of slot \<open>j\<close>. The \<^verbatim>\<open>copy_arrays\<close> callbacks act on
  the extensions' own arrays.
\<close>

definition copy_bond :: "nat \<Rightarrow> nat \<Rightarrow> nat \<Rightarrow> store \<Rightarrow> store" where
  "copy_bond i j k st = st
     \<lparr>bond_type := (bond_type st)(j := (bond_type st j)(k := bond_type st i k)),
      bond_atom := (bond_atom st)(j := (bond_atom st j)(k := bond_atom st i k)),
      bond_r0 := (bond_r0 st)(j := (bond_r0 st j)(k := bond_r0 st i k))\<rparr>"

definition copy_angle :: "nat \<Rightarrow> nat \<Rightarrow> nat \<Rightarrow> store \<Rightarrow> store" where
  "copy_angle i j k st = st
     \<lparr>angle_type := (angle_type st)(j := (angle_type st j)(k := angle_type st i k)),
      angle_atom1 := (angle_atom1 st)(j := (angle_atom1 st j)(k := angle_atom1 st i k)),
      angle_atom2 := (angle_atom2 st)(j := (angle_atom2 st j)(k := angle_atom2 st i k)),
      angle_atom3 := (angle_atom3 st)(j := (angle_atom3 st j)(k := angle_atom3 st i k)),
      angle_a0 := (angle_a0 st)(j := (angle_a0 st j)(k := angle_a0 st i k))\<rparr>"

definition copy_dihedral :: "nat \<Rightarrow> nat \<Rightarrow> nat \<Rightarrow> store \<Rightarrow> store" where
  "copy_dihedral i j k st = st
     \<lparr>dihedral_type := (dihedral_type st)(j := (dihedral_type st j)(k := dihedral_type st i k)),
      dihedral_atom1 := (dihedral_atom1 st)(j := (dihedral_atom1 st j)(k := dihedral_atom1 st i k)),
      dihedral_atom2 := (dihedral_atom2 st)(j := (dihedral_atom2 st j)(k := dihedral_atom2 st i k)),
      dihedral_atom3 := (dihedral_atom3 st)(j := (dihedral_atom3 st j)(k := dihedral_atom3 st i k)),
      dihedral_atom4 := (dihedral_atom4 st)(j := (dihedral_atom4 st j)(k := dihedral_atom4 st i k))\<rparr>"

definition copy_special :: "nat \<Rightarrow> nat \<Rightarrow> nat \<Rightarrow> store \<Rightarrow> store" where
  "copy_special i j k st = st
     \<lparr>special := (special st)(j := (special st j)(k := special st i k))\<rparr>"

definition copy_fixed :: "nat \<Rightarrow> nat \<Rightarrow> store \<Rightarrow> store" where
  "copy_fixed i j st = st
     \<lparr>tag := (tag st)(j := tag st i),
      type_a := (type_a st)(j := type_a st i),
      mask_a := (mask_a st)(j := mask_a st i),
      image_a := (image_a st)(j := image_a st i),
      x_a := (x_a st)(j := (x_a st j)(0 := x_a st i 0, 1 := x_a st i 1, 2 := x_a st i 2)),
      v_a := (v_a st)(j := (v_a st j)(0 := v_a st i 0, 1 := v_a st i 1, 2 := v_a st i 2)),
      molecule := (molecule st)(j := molecule st i)\<rparr>"

definition copy :: "nat \<Rightarrow> nat \<Rightarrow> store \<Rightarrow> store" where
  "copy i j st0 =
     (let st = copy_fixed i j st0;
          st = st\<lparr>num_bond := (num_bond st)(j := num_bond st i)\<rparr>;
          st = fold (copy_bond i j) [0..<iters (num_bond st j)] st;
          st = st\<lparr>num_angle := (num_angle st)(j := num_angle st i)\<rparr>;
          st = fold (copy_angle i j) [0..<iters (num_angle st j)] st;
          st = st\<lparr>num_dihedral := (num_dihedral st)(j := num_dihedral st i)\<rparr>;
          st = fold (copy_dihedral i j) [0..<iters (num_dihedral st j)] st;
          st = st\<lparr>nspecial := (nspecial st)(j := (nspecial st j)
                 (0 := nspecial st i 0, 1 := nspecial st i 1, 2 := nspecial st i 2))\<rparr>
      in fold (copy_special i j) [0..<iters (nspecial st j 2)] st)"

section \<open>Live communication\<close>

text \<open>
  The geometric offset of a periodic shift, as computed by \<^verbatim>\<open>pack_comm\<close> and
  \<^verbatim>\<open>pack_comm_vel\<close>.
\<close>

definition comm_offset :: "domain \<Rightarrow> (nat \<Rightarrow> cint) \<Rightarrow> double \<times> double \<times> double" where
  "comm_offset dm pbc =
     (if triclinic dm = 0 then
        (i2d (pbc 0) * xprd dm, i2d (pbc 1) * yprd dm, i2d (pbc 2) * zprd dm)
      else
        (i2d (pbc 0) * xprd dm + i2d (pbc 5) * xy dm + i2d (pbc 4) * xz dm,
         i2d (pbc 1) * yprd dm + i2d (pbc 3) * yz dm,
         i2d (pbc 2) * zprd dm))"

text \<open>The offset computed by \<^verbatim>\<open>pack_border\<close> and \<^verbatim>\<open>pack_border_vel\<close>.\<close>

definition border_offset :: "domain \<Rightarrow> (nat \<Rightarrow> cint) \<Rightarrow> double \<times> double \<times> double" where
  "border_offset dm pbc =
     (if triclinic dm = 0 then
        (i2d (pbc 0) * xprd dm, i2d (pbc 1) * yprd dm, i2d (pbc 2) * zprd dm)
      else (i2d (pbc 0), i2d (pbc 1), i2d (pbc 2)))"

text \<open>The velocity correction \<^verbatim>\<open>dvx, dvy, dvz\<close> under deformation.\<close>

definition deform_dv :: "domain \<Rightarrow> (nat \<Rightarrow> cint) \<Rightarrow> double \<times> double \<times> double" where
  "deform_dv dm pbc =
     (i2d (pbc 0) * h_rate dm 0 + i2d (pbc 5) * h_rate dm 5 + i2d (pbc 4) * h_rate dm 4,
      i2d (pbc 1) * h_rate dm 1 + i2d (pbc 3) * h_rate dm 3,
      i2d (pbc 2) * h_rate dm 2)"

subsection \<open>pack_comm_vel\<close>

text \<open>
  The three loop bodies of \<^verbatim>\<open>pack_comm_vel\<close>, for position \<open>i\<close> of the list. In the third
  one the source tests \<^verbatim>\<open>mask[i] & deform_groupbit\<close>, with the loop index \<open>i\<close>.
\<close>

definition pack_comm_vel_plain :: "store \<Rightarrow> nat list \<Rightarrow> nat \<Rightarrow> nat \<times> buffer \<Rightarrow> nat \<times> buffer" where
  "pack_comm_vel_plain st list i mb =
     (let j = list ! i in
      puts [Dbl (x_a st j 0), Dbl (x_a st j 1), Dbl (x_a st j 2),
            Dbl (v_a st j 0), Dbl (v_a st j 1), Dbl (v_a st j 2),
            Img (image_a st j)] mb)"

definition pack_comm_vel_pbc ::
  "lmptype \<Rightarrow> store \<Rightarrow> nat list \<Rightarrow> (nat \<Rightarrow> cint) \<Rightarrow> double \<times> double \<times> double \<Rightarrow>
   nat \<Rightarrow> nat \<times> buffer \<Rightarrow> nat \<times> buffer" where
  "pack_comm_vel_pbc lt st list pbc d i mb =
     (case d of (dx, dy, dz) \<Rightarrow>
      let j = list ! i in
      puts [Dbl (x_a st j 0 + dx), Dbl (x_a st j 1 + dy), Dbl (x_a st j 2 + dz),
            Dbl (v_a st j 0), Dbl (v_a st j 1), Dbl (v_a st j 2),
            Img (image_remap lt (image_a st j) pbc)] mb)"

definition pack_comm_vel_deform ::
  "lmptype \<Rightarrow> domain \<Rightarrow> store \<Rightarrow> nat list \<Rightarrow> (nat \<Rightarrow> cint) \<Rightarrow> double \<times> double \<times> double \<Rightarrow>
   double \<times> double \<times> double \<Rightarrow> nat \<Rightarrow> nat \<times> buffer \<Rightarrow> nat \<times> buffer" where
  "pack_comm_vel_deform lt dm st list pbc d dv i mb =
     (case d of (dx, dy, dz) \<Rightarrow> case dv of (dvx, dvy, dvz) \<Rightarrow>
      let j = list ! i;
          mb = puts [Dbl (x_a st j 0 + dx), Dbl (x_a st j 1 + dy), Dbl (x_a st j 2 + dz)] mb;
          mb = (if mask_a st i AND deform_groupbit dm \<noteq> 0
                then puts [Dbl (v_a st j 0 + dvx), Dbl (v_a st j 1 + dvy), Dbl (v_a st j 2 + dvz)] mb
                else puts [Dbl (v_a st j 0), Dbl (v_a st j 1), Dbl (v_a st j 2)] mb)
      in put (Img (image_remap lt (image_a st j) pbc)) mb)"

definition pack_comm_vel ::
  "lmptype \<Rightarrow> domain \<Rightarrow> store \<Rightarrow> nat \<Rightarrow> nat list \<Rightarrow> buffer \<Rightarrow> cint \<Rightarrow> (nat \<Rightarrow> cint) \<Rightarrow>
   nat \<times> buffer" where
  "pack_comm_vel lt dm st n list buf pbc_flag pbc =
     (if pbc_flag = 0 then fold (pack_comm_vel_plain st list) [0..<n] (0, buf)
      else if deform_vremap dm = 0 then
        fold (pack_comm_vel_pbc lt st list pbc (comm_offset dm pbc)) [0..<n] (0, buf)
      else
        fold (pack_comm_vel_deform lt dm st list pbc (comm_offset dm pbc) (deform_dv dm pbc))
          [0..<n] (0, buf))"

subsection \<open>pack_reverse and unpack_reverse\<close>

definition pack_reverse :: "store \<Rightarrow> nat \<Rightarrow> nat \<Rightarrow> buffer \<Rightarrow> nat \<times> buffer" where
  "pack_reverse st n first buf =
     fold (\<lambda>i. puts [Dbl (f_a st i 0), Dbl (f_a st i 1), Dbl (f_a st i 2)])
       [first..<first + n] (0, buf)"

text \<open>
  The body of the loop of \<^verbatim>\<open>unpack_reverse\<close>:
  \<^verbatim>\<open>j = list[i]; f[j][0] += buf[m++]; f[j][1] += buf[m++]; f[j][2] += buf[m++];\<close>
\<close>

definition unpack_reverse_step :: "nat list \<Rightarrow> buffer \<Rightarrow> nat \<Rightarrow> nat \<times> store \<Rightarrow> nat \<times> store" where
  "unpack_reverse_step list buf i ms =
     (case ms of (m, st) \<Rightarrow>
      let j = list ! i;
          st = st\<lparr>f_a := (f_a st)(j := (f_a st j)(0 := f_a st j 0 + dbl_of (buf m)))\<rparr>;
          st = st\<lparr>f_a := (f_a st)(j := (f_a st j)(1 := f_a st j 1 + dbl_of (buf (m + 1))))\<rparr>;
          st = st\<lparr>f_a := (f_a st)(j := (f_a st j)(2 := f_a st j 2 + dbl_of (buf (m + 2))))\<rparr>
      in (m + 3, st))"

definition unpack_reverse :: "nat \<Rightarrow> nat list \<Rightarrow> buffer \<Rightarrow> store \<Rightarrow> store" where
  "unpack_reverse n list buf st = snd (fold (unpack_reverse_step list buf) [0..<n] (0, st))"

subsection \<open>pack_border, pack_border_vel and unpack_border\<close>

text \<open>The callbacks \<^verbatim>\<open>m += fix->pack_border(n, list, &buf[m])\<close> of the registered extensions.\<close>

definition pack_border_extra :: "fix_hooks list \<Rightarrow> nat \<Rightarrow> nat list \<Rightarrow> nat \<times> buffer \<Rightarrow> nat \<times> buffer" where
  "pack_border_extra extra_border n list mb =
     fold (\<lambda>fx. puts (fix_pack_border fx n list)) extra_border mb"

definition pack_border_plain :: "store \<Rightarrow> nat list \<Rightarrow> nat \<Rightarrow> nat \<times> buffer \<Rightarrow> nat \<times> buffer" where
  "pack_border_plain st list i mb =
     (let j = list ! i in
      puts [Dbl (x_a st j 0), Dbl (x_a st j 1), Dbl (x_a st j 2),
            Dbl (i2d (tag st j)), Dbl (i2d (type_a st j)), Dbl (i2d (mask_a st j)),
            Dbl (i2d (molecule st j)), Img (image_a st j)] mb)"

definition pack_border_pbc ::
  "lmptype \<Rightarrow> store \<Rightarrow> nat list \<Rightarrow> (nat \<Rightarrow> cint) \<Rightarrow> double \<times> double \<times> double \<Rightarrow>
   nat \<Rightarrow> nat \<times> buffer \<Rightarrow> nat \<times> buffer" where
  "pack_border_pbc lt st list pbc d i mb =
     (case d of (dx, dy, dz) \<Rightarrow>
      let j = list ! i in
      puts [Dbl (x_a st j 0 + dx), Dbl (x_a st j 1 + dy), Dbl (x_a st j 2 + dz),
            Dbl (i2d (tag st j)), Dbl (i2d (type_a st j)), Dbl (i2d (mask_a st j)),
            Dbl (i2d (molecule st j)), Img (image_remap lt (image_a st j) pbc)] mb)"

definition pack_border ::
  "lmptype \<Rightarrow> domain \<Rightarrow> fix_hooks list \<Rightarrow> store \<Rightarrow> nat \<Rightarrow> nat list \<Rightarrow> buffer \<Rightarrow> cint \<Rightarrow>
   (nat \<Rightarrow> cint) \<Rightarrow> nat \<times> buffer" where
  "pack_border lt dm extra_border st n list buf pbc_flag pbc =
     pack_border_extra extra_border n list
       (if pbc_flag = 0 then fold (pack_border_plain st list) [0..<n] (0, buf)
        else fold (pack_border_pbc lt st list pbc (border_offset dm pbc)) [0..<n] (0, buf))"

definition pack_border_vel_plain :: "store \<Rightarrow> nat list \<Rightarrow> nat \<Rightarrow> nat \<times> buffer \<Rightarrow> nat \<times> buffer" where
  "pack_border_vel_plain st list i mb =
     (let j = list ! i in
      puts [Dbl (x_a st j 0), Dbl (x_a st j 1), Dbl (x_a st j 2),
            Dbl (i2d (tag st j)), Dbl (i2d (type_a st j)), Dbl (i2d (mask_a st j)),
            Dbl (i2d (molecule st j)),
            Dbl (v_a st j 0), Dbl (v_a st j 1), Dbl (v_a st j 2),
            Img (image_a st j)] mb)"

definition pack_border_vel_pbc ::
  "lmptype \<Rightarrow> store \<Rightarrow> nat list \<Rightarrow> (nat \<Rightarrow> cint) \<Rightarrow> double \<times> double \<times> double \<Rightarrow>
   nat \<Rightarrow> nat \<times> buffer \<Rightarrow> nat \<times> buffer" where
  "pack_border_vel_pbc lt st list pbc d i mb =
     (case d of (dx, dy, dz) \<Rightarrow>
      let j = list ! i in
      puts [Dbl (x_a st j 0 + dx), Dbl (x_a st j 1 + dy), Dbl (x_a st j 2 + dz),
            Dbl (i2d (tag st j)), Dbl (i2d (type_a st j)), Dbl (i2d (mask_a st j)),
            Dbl (i2d (molecule st j)),
            Dbl (v_a st j 0), Dbl (v_a st j 1), Dbl (v_a st j 2),
            Img (image_remap lt (image_a st j) pbc)] mb)"

definition pack_border_vel_deform ::
  "lmptype \<Rightarrow> domain \<Rightarrow> store \<Rightarrow> nat list \<Rightarrow> (nat \<Rightarrow> cint) \<Rightarrow> double \<times> double \<times> double \<Rightarrow>
   double \<times> double \<times> double \<Rightarrow> nat \<Rightarrow> nat \<times> buffer \<Rightarrow> nat \<times> buffer" where
  "pack_border_vel_deform lt dm st list pbc d dv i mb =
     (case d of (dx, dy, dz) \<Rightarrow> case dv of (dvx, dvy, dvz) \<Rightarrow>
      let j = list ! i;
          mb = puts [Dbl (x_a st j 0 + dx), Dbl (x_a st j 1 + dy), Dbl (x_a st j 2 + dz),
                     Dbl (i2d (tag st j)), Dbl (i2d (type_a st j)), Dbl (i2d (mask_a st j)),
                     Dbl (i2d (molecule st j))] mb;
          mb = (if mask_a st i AND deform_groupbit dm \<noteq> 0
                then puts [Dbl (v_a st j 0 + dvx), Dbl (v_a st j 1 + dvy), Dbl (v_a st j 2 + dvz)] mb
                else puts [Dbl (v_a st j 0), Dbl (v_a st j 1), Dbl (v_a st j 2)] mb)
      in put (Img (image_remap lt (image_a st j) pbc)) mb)"

definition pack_border_vel ::
  "lmptype \<Rightarrow> domain \<Rightarrow> fix_hooks list \<Rightarrow> store \<Rightarrow> nat \<Rightarrow> nat list \<Rightarrow> buffer \<Rightarrow> cint \<Rightarrow>
   (nat \<Rightarrow> cint) \<Rightarrow> nat \<times> buffer" where
  "pack_border_vel lt dm extra_border st n list buf pbc_flag pbc =
     pack_border_extra extra_border n list
       (if pbc_flag = 0 then fold (pack_border_vel_plain st list) [0..<n] (0, buf)
        else if deform_vremap dm = 0 then
          fold (pack_border_vel_pbc lt st list pbc (border_offset dm pbc)) [0..<n] (0, buf)
        else
          fold (pack_border_vel_deform lt dm st list pbc (border_offset dm pbc)
                 (deform_dv dm pbc)) [0..<n] (0, buf))"

text \<open>
  The body of the loop of \<^verbatim>\<open>unpack_border\<close> for slot \<open>i\<close>; a fatal error of \<^verbatim>\<open>grow\<close>
  ends the run.
\<close>

definition unpack_border_step ::
  "lmptype \<Rightarrow> buffer \<Rightarrow> nat \<Rightarrow> error + nat \<times> store \<Rightarrow> error + nat \<times> store" where
  "unpack_border_step lt buf i r =
     (case r of Inl e \<Rightarrow> Inl e
      | Inr (m, st0) \<Rightarrow>
        (case grow_if_full lt i st0 of Inl e \<Rightarrow> Inl e
         | Inr st \<Rightarrow>
           Inr (m + 8, st
             \<lparr>x_a := (x_a st)(i := (x_a st i)
                 (0 := dbl_of (buf m), 1 := dbl_of (buf (m + 1)), 2 := dbl_of (buf (m + 2)))),
              tag := (tag st)(i := d2i (dbl_of (buf (m + 3)))),
              type_a := (type_a st)(i := d2i (dbl_of (buf (m + 4)))),
              mask_a := (mask_a st)(i := d2i (dbl_of (buf (m + 5)))),
              molecule := (molecule st)(i := d2i (dbl_of (buf (m + 6)))),
              image_a := (image_a st)(i := img_of (buf (m + 7)))\<rparr>)))"

text \<open>
  \<^verbatim>\<open>unpack_border\<close> returns nothing; the words that the \<^verbatim>\<open>unpack_border\<close> callbacks of
  the extensions consume afterwards only advance the local cursor, and the callbacks act on
  the extensions' own arrays.
\<close>

definition unpack_border :: "lmptype \<Rightarrow> nat \<Rightarrow> nat \<Rightarrow> buffer \<Rightarrow> store \<Rightarrow> error + store" where
  "unpack_border lt n first buf st =
     (case fold (unpack_border_step lt buf) [first..<first + n] (Inr (0, st)) of
        Inl e \<Rightarrow> Inl e
      | Inr (m, st') \<Rightarrow> Inr st')"

section \<open>Migration\<close>

subsection \<open>pack_exchange\<close>

text \<open>The words written by one iteration of each loop of \<^verbatim>\<open>pack_exchange\<close>.\<close>

definition exchange_bond :: "store \<Rightarrow> nat \<Rightarrow> nat \<Rightarrow> cell list" where
  "exchange_bond st i k =
     [Dbl (i2d (bond_type st i k)), Dbl (i2d (bond_atom st i k)), Dbl (bond_r0 st i k)]"

definition exchange_angle :: "store \<Rightarrow> nat \<Rightarrow> nat \<Rightarrow> cell list" where
  "exchange_angle st i k =
     [Dbl (i2d (angle_type st i k)), Dbl (i2d (angle_atom1 st i k)),
      Dbl (i2d (angle_atom2 st i k)), Dbl (i2d (angle_atom3 st i k)), Dbl (angle_a0 st i k)]"

definition exchange_dihedral :: "store \<Rightarrow> nat \<Rightarrow> nat \<Rightarrow> cell list" where
  "exchange_dihedral st i k =
     [Dbl (i2d (dihedral_type st i k)), Dbl (i2d (dihedral_atom1 st i k)),
      Dbl (i2d (dihedral_atom2 st i k)), Dbl (i2d (dihedral_atom3 st i k)),
      Dbl (i2d (dihedral_atom4 st i k))]"

text \<open>
  \<^verbatim>\<open>pack_exchange(i, buf)\<close>: the cursor starts at 1, word 0 receives the final cursor at
  the end. The result is the returned count and the buffer.
\<close>

definition pack_exchange :: "fix_hooks list \<Rightarrow> store \<Rightarrow> nat \<Rightarrow> buffer \<Rightarrow> nat \<times> buffer" where
  "pack_exchange extra_grow st i buf =
     (let mb = puts [Dbl (x_a st i 0), Dbl (x_a st i 1), Dbl (x_a st i 2),
                     Dbl (v_a st i 0), Dbl (v_a st i 1), Dbl (v_a st i 2),
                     Dbl (i2d (tag st i)), Dbl (i2d (type_a st i)), Dbl (i2d (mask_a st i)),
                     Img (image_a st i), Dbl (i2d (molecule st i))] (1, buf);
          mb = put (Dbl (i2d (num_bond st i))) mb;
          mb = fold (\<lambda>k. puts (exchange_bond st i k)) [0..<iters (num_bond st i)] mb;
          mb = put (Dbl (i2d (num_angle st i))) mb;
          mb = fold (\<lambda>k. puts (exchange_angle st i k)) [0..<iters (num_angle st i)] mb;
          mb = put (Dbl (i2d (num_dihedral st i))) mb;
          mb = fold (\<lambda>k. puts (exchange_dihedral st i k)) [0..<iters (num_dihedral st i)] mb;
          mb = puts [Dbl (i2d (nspecial st i 0)), Dbl (i2d (nspecial st i 1)),
                     Dbl (i2d (nspecial st i 2))] mb;
          mb = fold (\<lambda>k. put (Dbl (i2d (special st i k)))) [0..<iters (nspecial st i 2)] mb;
          mb = fold (\<lambda>fx. puts (fix_pack_exchange fx i)) extra_grow mb
      in (fst mb, (snd mb)(0 := Dbl (of_nat (fst mb)))))"

subsection \<open>unpack_exchange\<close>

text \<open>The fixed part of the record, words 1 to 11, stored into slot \<open>nl\<close>.\<close>

definition unpack_exchange_fixed :: "buffer \<Rightarrow> nat \<Rightarrow> store \<Rightarrow> store" where
  "unpack_exchange_fixed buf nl st = st
     \<lparr>x_a := (x_a st)(nl := (x_a st nl)
         (0 := dbl_of (buf 1), 1 := dbl_of (buf 2), 2 := dbl_of (buf 3))),
      v_a := (v_a st)(nl := (v_a st nl)
         (0 := dbl_of (buf 4), 1 := dbl_of (buf 5), 2 := dbl_of (buf 6))),
      tag := (tag st)(nl := d2i (dbl_of (buf 7))),
      type_a := (type_a st)(nl := d2i (dbl_of (buf 8))),
      mask_a := (mask_a st)(nl := d2i (dbl_of (buf 9))),
      image_a := (image_a st)(nl := img_of (buf 10)),
      molecule := (molecule st)(nl := d2i (dbl_of (buf 11)))\<rparr>"

text \<open>The loop bodies, on the pair of the cursor and the store.\<close>

definition unpack_bond :: "buffer \<Rightarrow> nat \<Rightarrow> nat \<Rightarrow> nat \<times> store \<Rightarrow> nat \<times> store" where
  "unpack_bond buf nl k ms =
     (case ms of (m, st) \<Rightarrow> (m + 3, st
        \<lparr>bond_type := (bond_type st)(nl := (bond_type st nl)(k := d2i (dbl_of (buf m)))),
         bond_atom := (bond_atom st)(nl := (bond_atom st nl)(k := d2i (dbl_of (buf (m + 1))))),
         bond_r0 := (bond_r0 st)(nl := (bond_r0 st nl)(k := dbl_of (buf (m + 2))))\<rparr>))"

definition unpack_angle :: "buffer \<Rightarrow> nat \<Rightarrow> nat \<Rightarrow> nat \<times> store \<Rightarrow> nat \<times> store" where
  "unpack_angle buf nl k ms =
     (case ms of (m, st) \<Rightarrow> (m + 5, st
        \<lparr>angle_type := (angle_type st)(nl := (angle_type st nl)(k := d2i (dbl_of (buf m)))),
         angle_atom1 := (angle_atom1 st)(nl := (angle_atom1 st nl)(k := d2i (dbl_of (buf (m + 1))))),
         angle_atom2 := (angle_atom2 st)(nl := (angle_atom2 st nl)(k := d2i (dbl_of (buf (m + 2))))),
         angle_atom3 := (angle_atom3 st)(nl := (angle_atom3 st nl)(k := d2i (dbl_of (buf (m + 3))))),
         angle_a0 := (angle_a0 st)(nl := (angle_a0 st nl)(k := dbl_of (buf (m + 4))))\<rparr>))"

definition unpack_dihedral :: "buffer \<Rightarrow> nat \<Rightarrow> nat \<Rightarrow> nat \<times> store \<Rightarrow> nat \<times> store" where
  "unpack_dihedral buf nl k ms =
     (case ms of (m, st) \<Rightarrow> (m + 5, st
        \<lparr>dihedral_type :=
           (dihedral_type st)(nl := (dihedral_type st nl)(k := d2i (dbl_of (buf m)))),
         dihedral_atom1 :=
           (dihedral_atom1 st)(nl := (dihedral_atom1 st nl)(k := d2i (dbl_of (buf (m + 1))))),
         dihedral_atom2 :=
           (dihedral_atom2 st)(nl := (dihedral_atom2 st nl)(k := d2i (dbl_of (buf (m + 2))))),
         dihedral_atom3 :=
           (dihedral_atom3 st)(nl := (dihedral_atom3 st nl)(k := d2i (dbl_of (buf (m + 3))))),
         dihedral_atom4 :=
           (dihedral_atom4 st)(nl := (dihedral_atom4 st nl)(k := d2i (dbl_of (buf (m + 4)))))\<rparr>))"

definition unpack_special :: "buffer \<Rightarrow> nat \<Rightarrow> nat \<Rightarrow> nat \<times> store \<Rightarrow> nat \<times> store" where
  "unpack_special buf nl k ms =
     (case ms of (m, st) \<Rightarrow> (m + 1, st
        \<lparr>special := (special st)(nl := (special st nl)(k := d2i (dbl_of (buf m))))\<rparr>))"

text \<open>
  Each count is read and stored, then its loop runs to the stored count:
  \<^verbatim>\<open>num_bond[nlocal] = static_cast<int>(buf[m++]); for (k = 0; k < num_bond[nlocal]; k++) ...\<close>
\<close>

definition unpack_bonds :: "buffer \<Rightarrow> nat \<Rightarrow> nat \<times> store \<Rightarrow> nat \<times> store" where
  "unpack_bonds buf nl ms =
     (case ms of (m, st) \<Rightarrow>
      let st = st\<lparr>num_bond := (num_bond st)(nl := d2i (dbl_of (buf m)))\<rparr>
      in fold (unpack_bond buf nl) [0..<iters (num_bond st nl)] (m + 1, st))"

definition unpack_angles :: "buffer \<Rightarrow> nat \<Rightarrow> nat \<times> store \<Rightarrow> nat \<times> store" where
  "unpack_angles buf nl ms =
     (case ms of (m, st) \<Rightarrow>
      let st = st\<lparr>num_angle := (num_angle st)(nl := d2i (dbl_of (buf m)))\<rparr>
      in fold (unpack_angle buf nl) [0..<iters (num_angle st nl)] (m + 1, st))"

definition unpack_dihedrals :: "buffer \<Rightarrow> nat \<Rightarrow> nat \<times> store \<Rightarrow> nat \<times> store" where
  "unpack_dihedrals buf nl ms =
     (case ms of (m, st) \<Rightarrow>
      let st = st\<lparr>num_dihedral := (num_dihedral st)(nl := d2i (dbl_of (buf m)))\<rparr>
      in fold (unpack_dihedral buf nl) [0..<iters (num_dihedral st nl)] (m + 1, st))"

definition unpack_specials :: "buffer \<Rightarrow> nat \<Rightarrow> nat \<times> store \<Rightarrow> nat \<times> store" where
  "unpack_specials buf nl ms =
     (case ms of (m, st) \<Rightarrow>
      let st = st\<lparr>nspecial := (nspecial st)(nl := (nspecial st nl)
                 (0 := d2i (dbl_of (buf m)), 1 := d2i (dbl_of (buf (m + 1))),
                  2 := d2i (dbl_of (buf (m + 2)))))\<rparr>
      in fold (unpack_special buf nl) [0..<iters (nspecial st nl 2)] (m + 3, st))"

text \<open>
  \<^verbatim>\<open>m += fix->unpack_exchange(nlocal, &buf[m])\<close> for every registered extension, in
  registration order.
\<close>

definition unpack_exchange_extra :: "fix_hooks list \<Rightarrow> buffer \<Rightarrow> nat \<Rightarrow> nat \<Rightarrow> nat" where
  "unpack_exchange_extra extra_grow buf nl m0 =
     fold (\<lambda>fx m. m + fix_unpack_exchange fx nl (\<lambda>k. buf (m + k))) extra_grow m0"

text \<open>\<^verbatim>\<open>unpack_exchange(buf)\<close>: the words consumed and the new store, or a fatal error.\<close>

definition unpack_exchange ::
  "lmptype \<Rightarrow> fix_hooks list \<Rightarrow> buffer \<Rightarrow> store \<Rightarrow> error + nat \<times> store" where
  "unpack_exchange lt extra_grow buf st0 =
     (case grow_if_full lt (nlocal st0) st0 of Inl e \<Rightarrow> Inl e
      | Inr st \<Rightarrow>
        let nl = nlocal st;
            ms = (12, unpack_exchange_fixed buf nl st);
            ms = unpack_bonds buf nl ms;
            ms = unpack_angles buf nl ms;
            ms = unpack_dihedrals buf nl ms;
            ms = unpack_specials buf nl ms;
            m = unpack_exchange_extra extra_grow buf nl (fst ms)
        in Inr (m, (snd ms)\<lparr>nlocal := Suc nl\<rparr>))"

section \<open>Snapshot\<close>

text \<open>
  \<^verbatim>\<open>size_restart()\<close>, in \<^verbatim>\<open>int\<close> arithmetic: first the loop over the owned atoms, then
  for each registered extension the loop over the owned atoms.
\<close>

definition size_restart :: "fix_hooks list \<Rightarrow> store \<Rightarrow> cint" where
  "size_restart extra_restart st =
     (let n = fold (\<lambda>i n. n + (15 + 2 * num_bond st i + 5 * num_angle st i
                               + 5 * num_dihedral st i)) [0..<nlocal st] 0
      in fold (\<lambda>fx n. fold (\<lambda>i n. n + fix_size_restart fx i) [0..<nlocal st] n)
           extra_restart n)"

text \<open>
  Modelled from the spec: the macro \<^verbatim>\<open>MAX\<close> is defined outside the source file; the
  specification says that the type fields are written as their absolute value, which is
  what the larger of \<open>t\<close> and \<open>-t\<close> is, compared as signed integers.
\<close>

definition MAX_C :: "cint \<Rightarrow> cint \<Rightarrow> cint" where
  "MAX_C a b = (if sint a > sint b then a else b)"

definition restart_bond :: "store \<Rightarrow> nat \<Rightarrow> nat \<Rightarrow> cell list" where
  "restart_bond st i k =
     [Dbl (i2d (MAX_C (bond_type st i k) (- bond_type st i k))),
      Dbl (i2d (bond_atom st i k)), Dbl (bond_r0 st i k)]"

definition restart_angle :: "store \<Rightarrow> nat \<Rightarrow> nat \<Rightarrow> cell list" where
  "restart_angle st i k =
     [Dbl (i2d (MAX_C (angle_type st i k) (- angle_type st i k))),
      Dbl (i2d (angle_atom1 st i k)), Dbl (i2d (angle_atom2 st i k)),
      Dbl (i2d (angle_atom3 st i k)), Dbl (angle_a0 st i k)]"

definition restart_dihedral :: "store \<Rightarrow> nat \<Rightarrow> nat \<Rightarrow> cell list" where
  "restart_dihedral st i k =
     [Dbl (i2d (MAX_C (dihedral_type st i k) (- dihedral_type st i k))),
      Dbl (i2d (dihedral_atom1 st i k)), Dbl (i2d (dihedral_atom2 st i k)),
      Dbl (i2d (dihedral_atom3 st i k)), Dbl (i2d (dihedral_atom4 st i k))]"

definition pack_restart :: "fix_hooks list \<Rightarrow> store \<Rightarrow> nat \<Rightarrow> buffer \<Rightarrow> nat \<times> buffer" where
  "pack_restart extra_restart st i buf =
     (let mb = puts [Dbl (x_a st i 0), Dbl (x_a st i 1), Dbl (x_a st i 2),
                     Dbl (i2d (tag st i)), Dbl (i2d (type_a st i)), Dbl (i2d (mask_a st i)),
                     Img (image_a st i),
                     Dbl (v_a st i 0), Dbl (v_a st i 1), Dbl (v_a st i 2),
                     Dbl (i2d (molecule st i))] (1, buf);
          mb = put (Dbl (i2d (num_bond st i))) mb;
          mb = fold (\<lambda>k. puts (restart_bond st i k)) [0..<iters (num_bond st i)] mb;
          mb = put (Dbl (i2d (num_angle st i))) mb;
          mb = fold (\<lambda>k. puts (restart_angle st i k)) [0..<iters (num_angle st i)] mb;
          mb = put (Dbl (i2d (num_dihedral st i))) mb;
          mb = fold (\<lambda>k. puts (restart_dihedral st i k)) [0..<iters (num_dihedral st i)] mb;
          mb = fold (\<lambda>fx. puts (fix_pack_restart fx i)) extra_restart mb
      in (fst mb, (snd mb)(0 := Dbl (of_nat (fst mb)))))"

section \<open>Data-file ingestion\<close>

text \<open>
  The C library's \<^verbatim>\<open>atoi\<close>: white space is skipped, an optional sign is read, then the
  decimal digits up to the first other character. The accumulation is in 32-bit arithmetic.
\<close>

definition isspace :: "char \<Rightarrow> bool" where
  "isspace c \<longleftrightarrow> c \<in> set [CHR '' '', CHR 0x09, CHR 0x0A, CHR 0x0B, CHR 0x0C, CHR 0x0D]"

definition isdigit :: "char \<Rightarrow> bool" where
  "isdigit c \<longleftrightarrow> 48 \<le> (of_char c :: nat) \<and> (of_char c :: nat) \<le> 57"

fun atoi_digits :: "cint \<Rightarrow> string \<Rightarrow> cint" where
  "atoi_digits acc [] = acc"
| "atoi_digits acc (c # cs) =
     (if isdigit c then atoi_digits (10 * acc + of_nat (of_char c - 48)) cs else acc)"

definition atoi :: "string \<Rightarrow> cint" where
  "atoi s =
     (case dropWhile isspace s of
        [] \<Rightarrow> 0
      | c # cs \<Rightarrow>
          if c = CHR ''-'' then - atoi_digits 0 cs
          else if c = CHR ''+'' then atoi_digits 0 cs
          else atoi_digits 0 (c # cs))"

text \<open>
  \<^verbatim>\<open>data_atom(coord, imagetmp, values)\<close>. The fields are stored in the order of the
  source; a failed check ends the run.
\<close>

definition data_atom ::
  "lmptype \<Rightarrow> (nat \<Rightarrow> double) \<Rightarrow> tagint \<Rightarrow> string list \<Rightarrow> store \<Rightarrow> error + store" where
  "data_atom lt coord imagetmp values st0 =
     (case grow_if_full lt (nlocal st0) st0 of Inl e \<Rightarrow> Inl e
      | Inr st1 \<Rightarrow>
        let nl = nlocal st1;
            st2 = st1\<lparr>tag := (tag st1)(nl := atoi (values ! 0))\<rparr>
        in if sint (tag st2 nl) \<le> 0 then Inl Invalid_atom_ID_in_Atoms_section_of_data_file
           else
             let st3 = st2\<lparr>molecule := (molecule st2)(nl := atoi (values ! 1))\<rparr>;
                 st4 = st3\<lparr>type_a := (type_a st3)(nl := atoi (values ! 2))\<rparr>
             in if sint (type_a st4 nl) \<le> 0 \<or> sint (type_a st4 nl) > sint (ntypes st4)
                then Inl Invalid_atom_type_in_Atoms_section_of_data_file
                else Inr (st4
                  \<lparr>x_a := (x_a st4)(nl := (x_a st4 nl)(0 := coord 0, 1 := coord 1, 2 := coord 2)),
                   image_a := (image_a st4)(nl := imagetmp),
                   mask_a := (mask_a st4)(nl := 1),
                   v_a := (v_a st4)(nl := (v_a st4 nl)(0 := 0, 1 := 0, 2 := 0)),
                   num_bond := (num_bond st4)(nl := 0),
                   num_angle := (num_angle st4)(nl := 0),
                   num_dihedral := (num_dihedral st4)(nl := 0),
                   nlocal := Suc nl\<rparr>))"

section \<open>Example states\<close>

text \<open>A store of capacity 4 whose arrays hold zero everywhere.\<close>

definition zero_store :: store where
  "zero_store =
     \<lparr>nlocal = 0, nmax = 4, ntypes = 3,
      tag = \<lambda>_. 0, type_a = \<lambda>_. 0, mask_a = \<lambda>_. 0, image_a = \<lambda>_. 0,
      x_a = \<lambda>_ _. 0, v_a = \<lambda>_ _. 0, f_a = \<lambda>_ _. 0, molecule = \<lambda>_. 0,
      nspecial = \<lambda>_ _. 0, special = \<lambda>_ _. 0,
      num_bond = \<lambda>_. 0, bond_type = \<lambda>_ _. 0, bond_atom = \<lambda>_ _. 0, bond_r0 = \<lambda>_ _. 0,
      num_angle = \<lambda>_. 0, angle_type = \<lambda>_ _. 0, angle_atom1 = \<lambda>_ _. 0,
      angle_atom2 = \<lambda>_ _. 0, angle_atom3 = \<lambda>_ _. 0, angle_a0 = \<lambda>_ _. 0,
      num_dihedral = \<lambda>_. 0, dihedral_type = \<lambda>_ _. 0, dihedral_atom1 = \<lambda>_ _. 0,
      dihedral_atom2 = \<lambda>_ _. 0, dihedral_atom3 = \<lambda>_ _. 0, dihedral_atom4 = \<lambda>_ _. 0\<rparr>"

text \<open>A buffer of zeros and an orthogonal domain of side 10 without deformation.\<close>

definition zero_buf :: buffer where
  "zero_buf = (\<lambda>_. Dbl 0)"

definition box10 :: domain where
  "box10 =
     \<lparr>triclinic = 0, xprd = 10, yprd = 10, zprd = 10, xy = 0, xz = 0, yz = 0,
      deform_vremap = 0, deform_groupbit = 1, h_rate = \<lambda>_. 0\<rparr>"

section \<open>Notions used in the statements\<close>

text \<open>Slot \<open>s\<close> holds the same full record in two stores.\<close>

definition same_slot :: "store \<Rightarrow> store \<Rightarrow> nat \<Rightarrow> bool" where
  "same_slot st st' s \<longleftrightarrow>
     tag st' s = tag st s \<and> type_a st' s = type_a st s \<and> mask_a st' s = mask_a st s \<and>
     image_a st' s = image_a st s \<and> x_a st' s = x_a st s \<and> v_a st' s = v_a st s \<and>
     f_a st' s = f_a st s \<and> molecule st' s = molecule st s \<and>
     nspecial st' s = nspecial st s \<and> special st' s = special st s \<and>
     num_bond st' s = num_bond st s \<and> bond_type st' s = bond_type st s \<and>
     bond_atom st' s = bond_atom st s \<and> bond_r0 st' s = bond_r0 st s \<and>
     num_angle st' s = num_angle st s \<and> angle_type st' s = angle_type st s \<and>
     angle_atom1 st' s = angle_atom1 st s \<and> angle_atom2 st' s = angle_atom2 st s \<and>
     angle_atom3 st' s = angle_atom3 st s \<and> angle_a0 st' s = angle_a0 st s \<and>
     num_dihedral st' s = num_dihedral st s \<and> dihedral_type st' s = dihedral_type st s \<and>
     dihedral_atom1 st' s = dihedral_atom1 st s \<and> dihedral_atom2 st' s = dihedral_atom2 st s \<and>
     dihedral_atom3 st' s = dihedral_atom3 st s \<and> dihedral_atom4 st' s = dihedral_atom4 st s"

text \<open>
  Entry \<open>k\<close> of the topology and special-neighbour arrays of slot \<open>j\<close> is the same in two
  stores.
\<close>

definition same_bond_entry :: "store \<Rightarrow> store \<Rightarrow> nat \<Rightarrow> nat \<Rightarrow> bool" where
  "same_bond_entry st st' j k \<longleftrightarrow>
     bond_type st' j k = bond_type st j k \<and> bond_atom st' j k = bond_atom st j k \<and>
     bond_r0 st' j k = bond_r0 st j k"

definition same_angle_entry :: "store \<Rightarrow> store \<Rightarrow> nat \<Rightarrow> nat \<Rightarrow> bool" where
  "same_angle_entry st st' j k \<longleftrightarrow>
     angle_type st' j k = angle_type st j k \<and> angle_atom1 st' j k = angle_atom1 st j k \<and>
     angle_atom2 st' j k = angle_atom2 st j k \<and> angle_atom3 st' j k = angle_atom3 st j k \<and>
     angle_a0 st' j k = angle_a0 st j k"

definition same_dihedral_entry :: "store \<Rightarrow> store \<Rightarrow> nat \<Rightarrow> nat \<Rightarrow> bool" where
  "same_dihedral_entry st st' j k \<longleftrightarrow>
     dihedral_type st' j k = dihedral_type st j k \<and>
     dihedral_atom1 st' j k = dihedral_atom1 st j k \<and>
     dihedral_atom2 st' j k = dihedral_atom2 st j k \<and>
     dihedral_atom3 st' j k = dihedral_atom3 st j k \<and>
     dihedral_atom4 st' j k = dihedral_atom4 st j k"

text \<open>
  A store with two owned atoms: atom 0 has two bonds and one angle, atom 1 has stale
  topology entries and forces from an earlier use of the slot.
\<close>

definition demo_store :: store where
  "demo_store = zero_store
     \<lparr>nlocal := 2,
      tag := (\<lambda>_. 0)(0 := 7, 1 := 8),
      type_a := (\<lambda>_. 0)(0 := 2, 1 := 1),
      mask_a := (\<lambda>_. 0)(0 := 1, 1 := 3),
      image_a := (\<lambda>_. 537395712),
      x_a := (\<lambda>_ _. 0)(0 := (\<lambda>_. 0)(0 := 19 / 2, 1 := 1, 2 := 2)),
      v_a := (\<lambda>_ _. 0)(0 := (\<lambda>_. 0)(0 := 1 / 4), 1 := (\<lambda>_. 0)(0 := 5)),
      f_a := (\<lambda>_ _. 0)(0 := (\<lambda>_. 0)(0 := 1, 1 := 2, 2 := 3), 1 := (\<lambda>_. 0)(0 := 10, 1 := 20, 2 := 30)),
      molecule := (\<lambda>_. 0)(0 := 4),
      nspecial := (\<lambda>_ _. 0)(0 := (\<lambda>_. 0)(0 := 2, 1 := 3, 2 := 3)),
      special := (\<lambda>_ _. 0)(0 := (\<lambda>_. 0)(0 := 11, 1 := 12, 2 := 13), 1 := (\<lambda>_. 99)),
      num_bond := (\<lambda>_. 0)(0 := 2),
      bond_type := (\<lambda>_ _. 0)(0 := (\<lambda>_. 0)(0 := 1, 1 := - 1), 1 := (\<lambda>_. 9)),
      bond_atom := (\<lambda>_ _. 0)(0 := (\<lambda>_. 0)(0 := 11, 1 := 12), 1 := (\<lambda>_. 9)),
      bond_r0 := (\<lambda>_ _. 0)(0 := (\<lambda>_. 0)(0 := 3 / 2, 1 := 5 / 2), 1 := (\<lambda>_. 9)),
      num_angle := (\<lambda>_. 0)(0 := 1),
      angle_type := (\<lambda>_ _. 0)(0 := (\<lambda>_. 0)(0 := - 2), 1 := (\<lambda>_. 9)),
      angle_atom1 := (\<lambda>_ _. 0)(0 := (\<lambda>_. 0)(0 := 11)),
      angle_atom2 := (\<lambda>_ _. 0)(0 := (\<lambda>_. 0)(0 := 7)),
      angle_atom3 := (\<lambda>_ _. 0)(0 := (\<lambda>_. 0)(0 := 12)),
      angle_a0 := (\<lambda>_ _. 0)(0 := (\<lambda>_. 0)(0 := 1 / 2))\<rparr>"
section \<open>Properties of the image codec\<close>

lemma field_x:
  assumes "b \<le> n1" "b \<le> n2"
  shows "(take_bit b (fx::32 word) OR push_bit n1 (take_bit b fy) OR push_bit n2 (take_bit b fz)) AND mask b = take_bit b fx"
  using assms
  by (intro bit_word_eqI) (auto simp: bit_simps)

lemma field_y:
  assumes "b + n1 \<le> n2" "b \<le> n1" "n2 + b < 32"
  shows "signed_drop_bit n1 (take_bit b (fx::32 word) OR push_bit n1 (take_bit b fy) OR push_bit n2 (take_bit b fz)) AND mask b = take_bit b fy"
  using assms
  by (intro bit_word_eqI) (auto simp: bit_simps)

lemma field_z:
  assumes "b + n1 \<le> n2" "b \<le> n1" "n2 + b < 32"
  shows "signed_drop_bit n2 (take_bit b (fx::32 word) OR push_bit n1 (take_bit b fy) OR push_bit n2 (take_bit b fz)) AND mask b = take_bit b fz"
  using assms
  by (intro bit_word_eqI) (auto simp: bit_simps)

lemma field_z_nomask:
  assumes "b + n1 \<le> n2" "b \<le> n1" "n2 + b < 32"
  shows "signed_drop_bit n2 (take_bit b (fx::32 word) OR push_bit n1 (take_bit b fy) OR push_bit n2 (take_bit b fz)) = take_bit b fz"
  using assms
  by (intro bit_word_eqI) (auto simp: bit_simps)

lemma img_ok_mask: "img_ok lt \<Longrightarrow> IMGMASK lt = mask (IMGBITS lt)"
  by (simp add: img_ok_def mask_eq_exp_minus_1)

lemma image_encode_fields:
  assumes "img_ok lt"
  shows "image_encode lt wx wy wz =
     take_bit (IMGBITS lt) (wx + IMGMAX lt) OR
     push_bit (IMGBITS lt) (take_bit (IMGBITS lt) (wy + IMGMAX lt)) OR
     push_bit (IMG2BITS lt) (take_bit (IMGBITS lt) (wz + IMGMAX lt))"
  by (simp add: image_encode_def img_ok_mask [OF assms] take_bit_eq_mask)

lemma image_decode_encode_fields:
  assumes "img_ok lt"
  shows "image_decode lt (image_encode lt wx wy wz) =
     (take_bit (IMGBITS lt) (wx + IMGMAX lt) - IMGMAX lt,
      take_bit (IMGBITS lt) (wy + IMGMAX lt) - IMGMAX lt,
      take_bit (IMGBITS lt) (wz + IMGMAX lt) - IMGMAX lt)"
proof -
  from assms have b: "IMGBITS lt \<le> IMGBITS lt" "IMGBITS lt \<le> IMG2BITS lt"
    "IMGBITS lt + IMGBITS lt \<le> IMG2BITS lt" "IMG2BITS lt + IMGBITS lt < 32"
    by (simp_all add: img_ok_def)
  show ?thesis
    unfolding image_encode_fields [OF assms] image_decode_def img_ok_mask [OF assms]
    by (simp only: field_x [OF b(1,2)] field_y [OF b(3,1,4)] field_z [OF b(3,1,4)])
qed

lemma image_decode_data_encode_fields:
  assumes "img_ok lt"
  shows "image_decode_data lt (image_encode lt wx wy wz) =
     (take_bit (IMGBITS lt) (wx + IMGMAX lt) - IMGMAX lt,
      take_bit (IMGBITS lt) (wy + IMGMAX lt) - IMGMAX lt,
      take_bit (IMGBITS lt) (wz + IMGMAX lt) - IMGMAX lt)"
proof -
  from assms have b: "IMGBITS lt \<le> IMGBITS lt" "IMGBITS lt \<le> IMG2BITS lt"
    "IMGBITS lt + IMGBITS lt \<le> IMG2BITS lt" "IMG2BITS lt + IMGBITS lt < 32"
    by (simp_all add: img_ok_def)
  show ?thesis
    unfolding image_encode_fields [OF assms] image_decode_data_def img_ok_mask [OF assms]
    by (simp only: field_x [OF b(1,2)] field_y [OF b(3,1,4)] field_z_nomask [OF b(3,1,4)])
qed

lemma tb_diff_int: "take_bit m (take_bit m (a::int) - s) = take_bit m (a - s)"
  using take_bit_diff [of m "take_bit m a" s] take_bit_diff [of m a s] by simp

lemma tb_diff: "take_bit n (take_bit n (a::32 word) - s) = take_bit n (a - s)"
  by transfer (simp add: tb_diff_int)

lemma sint_of_int_32:
  assumes "- (2 ^ 31) \<le> k" "k < 2 ^ 31"
  shows "sint (word_of_int k :: 32 word) = k"
  unfolding sint_sbintrunc'
  by (rule signed_take_bit_int_eq_self) (use assms in simp_all)

lemma sint_IMGMAX:
  assumes "img_ok lt"
  shows "sint (IMGMAX lt) = 2 ^ (IMGBITS lt - 1)"
proof -
  from assms have "IMGBITS lt - 1 < 31" by (auto simp: img_ok_def)
  then have "(2::int) ^ (IMGBITS lt - 1) < 2 ^ 31"
    by (intro power_strict_increasing) simp_all
  moreover have "- ((2::int) ^ 31) \<le> 2 ^ (IMGBITS lt - 1)"
    by (rule order_trans [of _ 0]) simp_all
  ultimately have "sint (word_of_int (2 ^ (IMGBITS lt - 1)) :: 32 word) = 2 ^ (IMGBITS lt - 1)"
    by (intro sint_of_int_32)
  with assms show ?thesis by (simp add: img_ok_def)
qed

lemma sint_IMGMASK:
  assumes "img_ok lt"
  shows "sint (IMGMASK lt) = 2 ^ IMGBITS lt - 1"
proof -
  from assms have "IMGBITS lt < 31" by (auto simp: img_ok_def)
  then have "(2::int) ^ IMGBITS lt < 2 ^ 31"
    by (intro power_strict_increasing) simp_all
  then have "(2::int) ^ IMGBITS lt - 1 < 2 ^ 31" by linarith
  moreover have "- ((2::int) ^ 31) \<le> 2 ^ IMGBITS lt - 1"
    by (rule order_trans [of _ 0]) simp_all
  ultimately have "sint (word_of_int (2 ^ IMGBITS lt - 1) :: 32 word) = 2 ^ IMGBITS lt - 1"
    by (intro sint_of_int_32)
  with assms show ?thesis by (simp add: img_ok_def)
qed

lemma take_bit_biased:
  assumes ok: "img_ok lt" and r: "wrap_in_range lt w"
  shows "take_bit (IMGBITS lt) (w + IMGMAX lt) = w + IMGMAX lt"
proof -
  let ?b = "IMGBITS lt"
  let ?k = "sint w + 2 ^ (?b - 1)"
  from ok have b: "0 < ?b" by (simp add: img_ok_def)
  then have p: "(2::int) ^ ?b = 2 * 2 ^ (?b - 1)"
    by (cases ?b) simp_all
  from r have "0 \<le> ?k" "?k < 2 ^ ?b"
    unfolding wrap_in_range_def sint_IMGMAX [OF ok] sint_IMGMASK [OF ok] p by linarith+
  then have tk: "take_bit ?b ?k = ?k" by (rule take_bit_int_eq_self)
  have "w + IMGMAX lt = word_of_int ?k"
    using ok by (simp add: img_ok_def)
  moreover have "take_bit ?b (word_of_int ?k :: 32 word) = word_of_int (take_bit ?b ?k)"
    by (rule take_bit_of_int)
  ultimately show ?thesis using tk by simp
qed


text \<open>
  Claim C3. For all wrap counters \<open>wx\<close>, \<open>wy\<close>, \<open>wz\<close> within the supported per-axis
  range, decoding the image code that encodes them returns exactly \<open>(wx, wy, wz)\<close>. This
  holds for the decoding that masks all three fields (the pack functions) and for the
  decoding of \<^verbatim>\<open>pack_data\<close>, which leaves the third field unmasked.
\<close>

theorem image_codec_inverse:
  assumes "img_ok lt" "wrap_in_range lt wx" "wrap_in_range lt wy" "wrap_in_range lt wz"
  shows "image_decode lt (image_encode lt wx wy wz) = (wx, wy, wz) \<and>
         image_decode_data lt (image_encode lt wx wy wz) = (wx, wy, wz)"
  using assms
  by (simp add: image_decode_encode_fields image_decode_data_encode_fields take_bit_biased)

theorem image_codec_inverse_witness:
  "img_ok lmp_smallbig \<and> wrap_in_range lmp_smallbig (- 1) \<and> wrap_in_range lmp_smallbig 5 \<and>
   wrap_in_range lmp_smallbig (- 512) \<and>
   image_decode lmp_smallbig (image_encode lmp_smallbig (- 1) 5 (- 512)) = (- 1, 5, - 512) \<and>
   image_decode_data lmp_smallbig (image_encode lmp_smallbig (- 1) 5 (- 512)) = (- 1, 5, - 512)"
  using image_codec_inverse [of lmp_smallbig "- 1" 5 "- 512"]
  by (simp add: img_ok_def wrap_in_range_def lmp_smallbig_def)

lemma image_remap_fields:
  assumes "img_ok lt"
  shows "image_remap lt code s =
     take_bit (IMGBITS lt) (take_bit (IMGBITS lt) code - s 0) OR
     push_bit (IMGBITS lt)
       (take_bit (IMGBITS lt) (take_bit (IMGBITS lt) (signed_drop_bit (IMGBITS lt) code) - s 1)) OR
     push_bit (IMG2BITS lt)
       (take_bit (IMGBITS lt) (take_bit (IMGBITS lt) (signed_drop_bit (IMG2BITS lt) code) - s 2))"
  by (simp add: image_remap_def image_decode_def image_encode_fields [OF assms]
      img_ok_mask [OF assms] take_bit_eq_mask [symmetric])

text \<open>
  Claim C4. For every image code and every two shift triples \<open>s1\<close> and \<open>s2\<close>, remapping
  with \<open>s1\<close> and then with \<open>s2\<close> gives the same code as remapping once with the
  component-wise sum \<open>s1 + s2\<close>.
\<close>

theorem image_remap_compose:
  assumes "img_ok lt"
  shows "image_remap lt (image_remap lt code s1) s2 = image_remap lt code (\<lambda>a. s1 a + s2 a)"
proof -
  from assms have b: "IMGBITS lt \<le> IMGBITS lt" "IMGBITS lt \<le> IMG2BITS lt"
    "IMGBITS lt + IMGBITS lt \<le> IMG2BITS lt" "IMG2BITS lt + IMGBITS lt < 32"
    by (simp_all add: img_ok_def)
  have d: "take_bit n (take_bit n (take_bit n a - s) - t) = take_bit n (take_bit n a - (s + t))"
    for n and a s t :: "32 word"
    by (simp add: tb_diff diff_diff_eq)
  show ?thesis
    unfolding image_remap_fields [OF assms, of "image_remap lt code s1"]
    unfolding image_remap_fields [OF assms, of code]
    by (simp only: field_x [OF b(1,2), unfolded take_bit_eq_mask [symmetric]]
        field_y [OF b(3,1,4), unfolded take_bit_eq_mask [symmetric]]
        field_z [OF b(3,1,4), unfolded take_bit_eq_mask [symmetric]] d take_bit_take_bit min.idem)
qed

theorem image_remap_compose_witness:
  "img_ok lmp_smallbig \<and>
   image_remap lmp_smallbig (image_remap lmp_smallbig 537395712 (\<lambda>a. if a = 0 then 1 else 0))
      (\<lambda>a. if a = 1 then - 1 else 0) =
   image_remap lmp_smallbig 537395712
      (\<lambda>a. (if a = 0 then 1 else 0) + (if a = 1 then - 1 else 0))"
  using image_remap_compose [of lmp_smallbig 537395712 "\<lambda>a. if a = 0 then 1 else 0"
      "\<lambda>a. if a = 1 then - 1 else 0"]
  by (simp add: img_ok_def lmp_smallbig_def)

end
